theory Spec2Isabelle
  imports Main
begin

section \<open>Data model of query.py\<close>

text \<open>
  The exceptions the code of \<^verbatim>\<open>query.py\<close> can raise on its own paths: a dictionary
  lookup with a missing key (\<^verbatim>\<open>attr_map[partialquery.property]\<close>), the lookup of an
  attribute an object does not have, and an index outside a cursor.
\<close>

datatype error = KeyError | AttributeError | IndexError

text \<open>
  A model class is seen by \<^verbatim>\<open>bson\<close> only through \<^verbatim>\<open>vars(modelcls)\<close> and
  \<^verbatim>\<open>getattr(modelcls, attr)\<close>: the list of its attribute names, in the order \<^verbatim>\<open>vars\<close>
  iterates them, each with its value. A value is an instance of \<^verbatim>\<open>Property\<close> (a property
  object, identified by a number standing for the object's identity) or anything else.
\<close>

datatype attr_value = PropertyAttr nat | OtherAttr

type_synonym modelcls = "(string \<times> attr_value) list"

text \<open>
  The dictionaries \<^verbatim>\<open>bson\<close> builds and returns: the empty dictionary \<^verbatim>\<open>{}\<close>, a fragment
  \<^verbatim>\<open>{name: {operator: packed}}\<close> and a combinator \<^verbatim>\<open>{'$and': [...]}\<close> or \<^verbatim>\<open>{'$or': [...]}\<close>.
\<close>

datatype 'w bsondoc =
    Empty
  | Field string string 'w
  | Combinator string "'w bsondoc list"

text \<open>
  The two subclasses of \<^verbatim>\<open>LogicOperator\<close>. An object of either class has the fields
  \<^verbatim>\<open>_partialqueries\<close> (the tuple given to the constructor) and \<^verbatim>\<open>_bson\<close> (the cache,
  \<^verbatim>\<open>None\<close> at construction). An element of the tuple is a \<^verbatim>\<open>PropertyQuery\<close> with its
  \<^verbatim>\<open>property\<close>, \<^verbatim>\<open>operator\<close> and \<^verbatim>\<open>value\<close>, a \<^verbatim>\<open>LogicOperator\<close> object, or an object of
  any other class. The cache travels with its node, so the state of a node object after a
  call is the node the call returns. The tuple of children is fixed at construction, so a
  node never lies below itself; a node object placed under several parents is a copy at
  each place.
\<close>

datatype kind = AND | OR

datatype ('v, 'w) node =
    Node (kind: kind) (partialqueries: "('v, 'w) child list") (bson_cache: "'w bsondoc option")
and ('v, 'w) child =
    PropertyQuery nat string 'v
  | LogicOperator "('v, 'w) node"
  | Other

text \<open>\<^verbatim>\<open>AND.__init__\<close> and \<^verbatim>\<open>OR.__init__\<close>: the cache starts as \<^verbatim>\<open>None\<close>.\<close>

definition init_node :: "kind \<Rightarrow> ('v, 'w) child list \<Rightarrow> ('v, 'w) node" where
  "init_node k pqs = Node k pqs None"

section \<open>The filter compiler: AND.bson and OR.bson\<close>

text \<open>The key of the dictionary each class builds; the two methods differ in nothing else.\<close>

fun combinator :: "kind \<Rightarrow> string" where
  "combinator AND = ''$and''"
| "combinator OR = ''$or''"

text \<open>Python's truth value of the cache field: \<^verbatim>\<open>None\<close> and \<^verbatim>\<open>{}\<close> are false.\<close>

fun truthy :: "'w bsondoc option \<Rightarrow> bool" where
  "truthy None = False"
| "truthy (Some Empty) = False"
| "truthy (Some d) = True"

text \<open>
  The loop over \<^verbatim>\<open>vars(modelcls)\<close>: every attribute whose value is a \<^verbatim>\<open>Property\<close> is
  entered under that property, a later attribute with the same property replacing an
  earlier one.
\<close>

fun attr_map :: "modelcls \<Rightarrow> (nat \<rightharpoonup> string) \<Rightarrow> (nat \<rightharpoonup> string)" where
  "attr_map [] m = m"
| "attr_map ((attr, PropertyAttr p) # rest) m = attr_map rest (m(p \<mapsto> attr))"
| "attr_map ((attr, OtherAttr) # rest) m = attr_map rest m"

text \<open>
  \<^verbatim>\<open>bson\<close> and its loop over \<^verbatim>\<open>self._partialqueries\<close>. The parameter \<open>pack\<close> is
  \<^verbatim>\<open>property._pack\<close> of the entity layer. The loop returns the exception that ended it
  (if one did), the fragments appended to the list up to that point, and the children
  with the caches their own calls of \<^verbatim>\<open>bson\<close> left. The cache of the node is assigned
  before the loop and the list inside it is appended to in place, so the node keeps what
  was appended when the loop ends with an exception.
\<close>

fun bson :: "(nat \<Rightarrow> 'v \<Rightarrow> 'w) \<Rightarrow> modelcls \<Rightarrow> ('v, 'w) node \<Rightarrow> (error + 'w bsondoc) \<times> ('v, 'w) node"
and append_all :: "(nat \<Rightarrow> 'v \<Rightarrow> 'w) \<Rightarrow> modelcls \<Rightarrow> (nat \<rightharpoonup> string) \<Rightarrow> ('v, 'w) child list
      \<Rightarrow> error option \<times> 'w bsondoc list \<times> ('v, 'w) child list" where
  "bson pack modelcls (Node k pqs cache) =
     (if pqs = [] then (Inr Empty, Node k pqs cache)
      else if truthy cache then (Inr (the cache), Node k pqs cache)
      else (case append_all pack modelcls (attr_map modelcls Map.empty) pqs of
              (None, frags, pqs') \<Rightarrow>
                (Inr (Combinator (combinator k) frags),
                 Node k pqs' (Some (Combinator (combinator k) frags)))
            | (Some e, frags, pqs') \<Rightarrow>
                (Inl e, Node k pqs' (Some (Combinator (combinator k) frags)))))"
| "append_all pack modelcls am [] = (None, [], [])"
| "append_all pack modelcls am (PropertyQuery p operator v # rest) =
     (case am p of
        None \<Rightarrow> (Some KeyError, [], PropertyQuery p operator v # rest)
      | Some name \<Rightarrow>
          (case append_all pack modelcls am rest of
             (err, frags, rest') \<Rightarrow>
               (err, Field name operator (pack p v) # frags, PropertyQuery p operator v # rest')))"
| "append_all pack modelcls am (LogicOperator n # rest) =
     (case bson pack modelcls n of
        (Inl e, n') \<Rightarrow> (Some e, [], LogicOperator n' # rest)
      | (Inr d, n') \<Rightarrow>
          (case append_all pack modelcls am rest of
             (err, frags, rest') \<Rightarrow> (err, d # frags, LogicOperator n' # rest')))"
| "append_all pack modelcls am (Other # rest) =
     (case append_all pack modelcls am rest of
        (err, frags, rest') \<Rightarrow> (err, frags, Other # rest'))"

section \<open>The deferred query: class Query\<close>

text \<open>
  \<^verbatim>\<open>Key(model, id)\<close> of the entity layer pairs a model class with the string of a stored
  identifier. What \<^verbatim>\<open>fetch\<close>, \<^verbatim>\<open>get\<close> and \<^verbatim>\<open>iter\<close> hand out is such a key, or what
  \<^verbatim>\<open>key.get()\<close> returned for it.
\<close>

record Key =
  key_model :: modelcls
  key_id :: string

datatype 'e result = KeyResult Key | Entity 'e

text \<open>
  Modelled from the spec: the cursor \<^verbatim>\<open>collection.find\<close> returns belongs to the storage
  driver, which is not part of the repository. The storage contract of the specification
  gives it three operations: a total count, slicing by a half-open integer range, and
  forward iteration over documents that carry an identifier. The cursor is the list of
  matched documents in match order; a range that does not start at a non-negative index
  or that ends before it starts is not one the contract defines, and is an
  \<open>IndexError\<close> here, as is an index outside the list.
\<close>

definition cursor_count :: "'d list \<Rightarrow> int" where
  "cursor_count cursor = int (length cursor)"

definition cursor_slice :: "'d list \<Rightarrow> int \<Rightarrow> int \<Rightarrow> error + 'd list" where
  "cursor_slice cursor start stop =
     (if start < 0 \<or> stop < start then Inl IndexError
      else Inr (take (nat (stop - start)) (drop (nat start) cursor)))"

definition cursor_item :: "'d list \<Rightarrow> int \<Rightarrow> error + 'd" where
  "cursor_item cursor i =
     (if 0 \<le> i \<and> i < int (length cursor) then Inr (cursor ! nat i) else Inl IndexError)"

text \<open>
  The three fields \<^verbatim>\<open>__init__\<close> assigns: \<^verbatim>\<open>_model\<close>, \<^verbatim>\<open>_logic_chain\<close> and \<^verbatim>\<open>_query\<close>.
  After \<^verbatim>\<open>__init__\<close> the field \<^verbatim>\<open>_query\<close> is the cursor and hides the method of that
  name.
\<close>

record ('v, 'w, 'd) Query =
  q_model :: modelcls
  q_logic_chain :: "('v, 'w) node"
  q_query :: "'d list"

text \<open>
  The method \<^verbatim>\<open>_query\<close> and \<^verbatim>\<open>__init__\<close>. The parameter \<open>coll_find\<close> is
  \<^verbatim>\<open>model._collection().find(bson, projection={'_id': 1})\<close>. Both return the root
  node as the call of \<^verbatim>\<open>bson\<close> left it, also when that call raised.
\<close>

definition load_query :: "(modelcls \<Rightarrow> 'w bsondoc \<Rightarrow> 'd list) \<Rightarrow> (nat \<Rightarrow> 'v \<Rightarrow> 'w) \<Rightarrow> modelcls
    \<Rightarrow> ('v, 'w) node \<Rightarrow> (error + 'd list) \<times> ('v, 'w) node" where
  "load_query coll_find pack model logic_chain =
     (case bson pack model logic_chain of
        (Inl e, chain') \<Rightarrow> (Inl e, chain')
      | (Inr d, chain') \<Rightarrow> (Inr (coll_find model d), chain'))"

definition Query_init :: "(modelcls \<Rightarrow> 'w bsondoc \<Rightarrow> 'd list) \<Rightarrow> (nat \<Rightarrow> 'v \<Rightarrow> 'w) \<Rightarrow> modelcls
    \<Rightarrow> ('v, 'w) node \<Rightarrow> (error + ('v, 'w, 'd) Query) \<times> ('v, 'w) node" where
  "Query_init coll_find pack model logic_chain =
     (case load_query coll_find pack model logic_chain of
        (Inl e, chain') \<Rightarrow> (Inl e, chain')
      | (Inr cursor, chain') \<Rightarrow>
          (Inr \<lparr>q_model = model, q_logic_chain = chain', q_query = cursor\<rparr>, chain'))"

text \<open>
  Attribute lookup on a \<^verbatim>\<open>Query\<close> object: the three instance fields first, then the
  names the class defines; any other name raises \<^verbatim>\<open>AttributeError\<close>.
\<close>

datatype ('v, 'w, 'd) attribute =
    ModelValue modelcls
  | NodeValue "('v, 'w) node"
  | CursorValue "'d list"
  | Method

definition getattr :: "('v, 'w, 'd) Query \<Rightarrow> string \<Rightarrow> error + ('v, 'w, 'd) attribute" where
  "getattr self name =
     (if name = ''_model'' then Inr (ModelValue (q_model self))
      else if name = ''_logic_chain'' then Inr (NodeValue (q_logic_chain self))
      else if name = ''_query'' then Inr (CursorValue (q_query self))
      else if name \<in> set [''__init__'', ''filter'', ''fetch'', ''count'', ''get'', ''order'',
                           ''__iter__'', ''iter'']
      then Inr Method
      else Inl AttributeError)"

text \<open>
  \<^verbatim>\<open>filter\<close> reads \<^verbatim>\<open>self.logic_chain\<close>, builds \<^verbatim>\<open>AND(self.logic_chain, *args)\<close> and
  constructs a query from it. An attribute value that is a node becomes a
  \<^verbatim>\<open>LogicOperator\<close> child, any other value a child of another class. The method assigns
  no field of \<^verbatim>\<open>self\<close>.
\<close>

fun as_child :: "('v, 'w, 'd) attribute \<Rightarrow> ('v, 'w) child" where
  "as_child (NodeValue n) = LogicOperator n"
| "as_child a = Other"

definition filter_query :: "(modelcls \<Rightarrow> 'w bsondoc \<Rightarrow> 'd list) \<Rightarrow> (nat \<Rightarrow> 'v \<Rightarrow> 'w)
    \<Rightarrow> ('v, 'w, 'd) Query \<Rightarrow> ('v, 'w) child list \<Rightarrow> error + ('v, 'w, 'd) Query" where
  "filter_query coll_find pack self args =
     (case getattr self ''logic_chain'' of
        Inl e \<Rightarrow> Inl e
      | Inr a \<Rightarrow> fst (Query_init coll_find pack (q_model self) (init_node AND (as_child a # args))))"

text \<open>
  \<^verbatim>\<open>fetch\<close>, \<^verbatim>\<open>count\<close> and \<^verbatim>\<open>get\<close>. The parameter \<open>str_id\<close> is \<^verbatim>\<open>str(document['_id'])\<close>
  and \<open>Key_get\<close> is \<^verbatim>\<open>Key.get\<close> of the entity layer.
\<close>

definition fetch :: "('d \<Rightarrow> string) \<Rightarrow> (Key \<Rightarrow> 'e) \<Rightarrow> ('v, 'w, 'd) Query \<Rightarrow> int \<Rightarrow> int \<Rightarrow> bool
    \<Rightarrow> error + 'e result list" where
  "fetch str_id Key_get self offset count keys_only =
     (case cursor_slice (q_query self) offset (offset + count) of
        Inl e \<Rightarrow> Inl e
      | Inr subsection \<Rightarrow>
          if keys_only
          then Inr (map (\<lambda>document.
                 KeyResult \<lparr>key_model = q_model self, key_id = str_id document\<rparr>) subsection)
          else Inr (map (\<lambda>document.
                 Entity (Key_get \<lparr>key_model = q_model self, key_id = str_id document\<rparr>)) subsection))"

text \<open>
  The signature \<^verbatim>\<open>fetch(self, offset=0, count=0, keys_only=False)\<close>: an argument the
  caller leaves out takes its default.
\<close>

definition fetch_call :: "('d \<Rightarrow> string) \<Rightarrow> (Key \<Rightarrow> 'e) \<Rightarrow> ('v, 'w, 'd) Query \<Rightarrow> int option
    \<Rightarrow> int option \<Rightarrow> bool option \<Rightarrow> error + 'e result list" where
  "fetch_call str_id Key_get self offset count keys_only =
     fetch str_id Key_get self
       (case offset of None \<Rightarrow> 0 | Some x \<Rightarrow> x)
       (case count of None \<Rightarrow> 0 | Some x \<Rightarrow> x)
       (case keys_only of None \<Rightarrow> False | Some b \<Rightarrow> b)"

definition count :: "('v, 'w, 'd) Query \<Rightarrow> int" where
  "count self = cursor_count (q_query self)"

definition get :: "('d \<Rightarrow> string) \<Rightarrow> (Key \<Rightarrow> 'e) \<Rightarrow> ('v, 'w, 'd) Query \<Rightarrow> bool
    \<Rightarrow> error + 'e result option" where
  "get str_id Key_get self keys_only =
     (if count self = 0 then Inr None
      else (case cursor_item (q_query self) 0 of
              Inl e \<Rightarrow> Inl e
            | Inr document \<Rightarrow>
                (let key = \<lparr>key_model = q_model self, key_id = str_id document\<rparr>
                 in if keys_only then Inr (Some (KeyResult key))
                    else Inr (Some (Entity (Key_get key))))))"

text \<open>
  The generator \<^verbatim>\<open>iter\<close>: the list of the values it yields, in order. The second
  \<^verbatim>\<open>yield\<close> is not under an \<^verbatim>\<open>else\<close>: it runs for every document, after the first one
  when \<^verbatim>\<open>keys_only\<close> is set.
\<close>

fun iter_cursor :: "('d \<Rightarrow> string) \<Rightarrow> (Key \<Rightarrow> 'e) \<Rightarrow> modelcls \<Rightarrow> bool \<Rightarrow> 'd list \<Rightarrow> 'e result list" where
  "iter_cursor str_id Key_get model keys_only [] = []"
| "iter_cursor str_id Key_get model keys_only (document # rest) =
     (let key = \<lparr>key_model = model, key_id = str_id document\<rparr>
      in (if keys_only then [KeyResult key] else []) @
         Entity (Key_get key) # iter_cursor str_id Key_get model keys_only rest)"

definition iter :: "('d \<Rightarrow> string) \<Rightarrow> (Key \<Rightarrow> 'e) \<Rightarrow> ('v, 'w, 'd) Query \<Rightarrow> bool \<Rightarrow> 'e result list" where
  "iter str_id Key_get self keys_only = iter_cursor str_id Key_get (q_model self) keys_only (q_query self)"

section \<open>The filter document the specification describes\<close>

text \<open>
  The specification's account of compilation, written from its words and independently of
  \<^verbatim>\<open>bson\<close>: a node without children is the match-all filter; any other node is its
  combinator over the fragments of its children in order, where the fragment of a
  comparison unit is \<^verbatim>\<open>{resolvedFieldName: {operator: packedValue}}\<close> and the fragment of
  a nested logic node is that node's own filter. The specification knows no other kind of
  child, so \<open>spec_fragment\<close> has no equation for one.
\<close>

fun spec_compile :: "(nat \<Rightarrow> 'v \<Rightarrow> 'w) \<Rightarrow> (nat \<rightharpoonup> string) \<Rightarrow> ('v, 'w) node \<Rightarrow> 'w bsondoc"
and spec_fragment :: "(nat \<Rightarrow> 'v \<Rightarrow> 'w) \<Rightarrow> (nat \<rightharpoonup> string) \<Rightarrow> ('v, 'w) child \<Rightarrow> 'w bsondoc"
and spec_fragments :: "(nat \<Rightarrow> 'v \<Rightarrow> 'w) \<Rightarrow> (nat \<rightharpoonup> string) \<Rightarrow> ('v, 'w) child list \<Rightarrow> 'w bsondoc list" where
  "spec_compile pack schema (Node k children cache) =
     (if children = [] then Empty
      else Combinator (combinator k) (spec_fragments pack schema children))"
| "spec_fragment pack schema (PropertyQuery p operator v) =
     Field (the (schema p)) operator (pack p v)"
| "spec_fragment pack schema (LogicOperator n) = spec_compile pack schema n"
| "spec_fragments pack schema [] = []"
| "spec_fragments pack schema (c # rest) =
     spec_fragment pack schema c # spec_fragments pack schema rest"

text \<open>
  A node is fresh when neither it nor any node below it has been compiled: every cache is
  still \<^verbatim>\<open>None\<close>, as the constructors leave it.
\<close>

fun fresh :: "('v, 'w) node \<Rightarrow> bool"
and fresh_children :: "('v, 'w) child list \<Rightarrow> bool" where
  "fresh (Node k pqs cache) = (cache = None \<and> fresh_children pqs)"
| "fresh_children [] = True"
| "fresh_children (PropertyQuery p operator v # rest) = fresh_children rest"
| "fresh_children (LogicOperator n # rest) = (fresh n \<and> fresh_children rest)"
| "fresh_children (Other # rest) = fresh_children rest"

text \<open>
  A node is declared on a schema when every child, at every depth, is a comparison unit
  whose property the schema names or a logic node that is declared in turn.
\<close>

fun declared :: "(nat \<rightharpoonup> string) \<Rightarrow> ('v, 'w) node \<Rightarrow> bool"
and declared_children :: "(nat \<rightharpoonup> string) \<Rightarrow> ('v, 'w) child list \<Rightarrow> bool" where
  "declared schema (Node k pqs cache) = declared_children schema pqs"
| "declared_children schema [] = True"
| "declared_children schema (PropertyQuery p operator v # rest) =
     (schema p \<noteq> None \<and> declared_children schema rest)"
| "declared_children schema (LogicOperator n # rest) =
     (declared schema n \<and> declared_children schema rest)"
| "declared_children schema (Other # rest) = False"

section \<open>Properties of the filter compiler\<close>

subsection \<open>The loop keeps the number of children\<close>

lemma append_all_length:
  "length (snd (snd (append_all pack modelcls am pqs))) = length pqs"
proof (induction pqs)
  case Nil
  then show ?case by simp
next
  case (Cons c pqs)
  then show ?case
    by (cases c) (auto split: prod.splits option.splits sum.splits)
qed

text \<open>
  Whatever a call on a node with children returns, the node it leaves has children and a
  cache that counts as true; when the call returned a filter, the cache holds that filter.
\<close>

lemma bson_sets_cache:
  assumes "pqs \<noteq> []" and "bson pack modelcls (Node k pqs cache) = (r, n')"
  shows "partialqueries n' \<noteq> [] \<and> truthy (bson_cache n') \<and>
         (\<forall>d. r = Inr d \<longrightarrow> bson_cache n' = Some d)"
proof (cases "truthy cache")
  case True
  then obtain d where "cache = Some d" by (cases cache) auto
  with True assms show ?thesis by auto
next
  case False
  obtain err frags pqs' where
    a: "append_all pack modelcls (attr_map modelcls Map.empty) pqs = (err, frags, pqs')"
    by (cases "append_all pack modelcls (attr_map modelcls Map.empty) pqs") auto
  have "length pqs' = length pqs"
    using append_all_length [of pack modelcls "attr_map modelcls Map.empty" pqs] a by simp
  with assms(1) have "pqs' \<noteq> []" by auto
  with False assms a show ?thesis by (cases err) auto
qed

subsection \<open>Memoization\<close>

text \<open>
  Claim C1. For a node of either kind with at least one child, once a compilation against
  a model \<open>M1\<close> has returned a filter \<open>r\<close>, compiling the node again returns the very
  same \<open>r\<close> and leaves the node as it is, against \<open>M1\<close> and against any other model
  \<open>M2\<close> alike: the cache belongs to the node and no model is consulted.
\<close>

theorem cache_ignores_model:
  assumes "partialqueries n \<noteq> []" and "bson pack M1 n = (Inr r, n')"
  shows "bson pack M1 n' = (Inr r, n') \<and> bson pack M2 n' = (Inr r, n')"
proof -
  obtain k pqs cache where n: "n = Node k pqs cache" by (cases n)
  from assms n have "pqs \<noteq> []" and "bson pack M1 (Node k pqs cache) = (Inr r, n')"
    by simp_all
  from bson_sets_cache [OF this]
  have s: "partialqueries n' \<noteq> []" "truthy (bson_cache n')" "bson_cache n' = Some r"
    by blast+
  obtain k' pqs' cache' where n': "n' = Node k' pqs' cache'" by (cases n')
  with s show ?thesis by simp
qed

text \<open>
  An \<^verbatim>\<open>AND\<close> node over one comparison on property 0, compiled first against a model that
  names the property \<^verbatim>\<open>email\<close>, then against that model again and against a model that
  names it \<^verbatim>\<open>mail\<close>: all three calls give the filter with \<^verbatim>\<open>email\<close>.
\<close>

theorem cache_ignores_model_witness:
  "partialqueries (init_node AND [PropertyQuery 0 ''$eq'' (5::int)] :: (int, int) node) \<noteq> [] \<and>
   bson (\<lambda>p v. v) [(''email'', PropertyAttr 0)] (init_node AND [PropertyQuery 0 ''$eq'' (5::int)]) =
     (Inr (Combinator ''$and'' [Field ''email'' ''$eq'' 5]),
      Node AND [PropertyQuery 0 ''$eq'' 5] (Some (Combinator ''$and'' [Field ''email'' ''$eq'' 5]))) \<and>
   bson (\<lambda>p v. v) [(''email'', PropertyAttr 0)]
      (Node AND [PropertyQuery 0 ''$eq'' (5::int)] (Some (Combinator ''$and'' [Field ''email'' ''$eq'' 5]))) =
     (Inr (Combinator ''$and'' [Field ''email'' ''$eq'' 5]),
      Node AND [PropertyQuery 0 ''$eq'' 5] (Some (Combinator ''$and'' [Field ''email'' ''$eq'' 5]))) \<and>
   bson (\<lambda>p v. v) [(''mail'', PropertyAttr 0)]
      (Node AND [PropertyQuery 0 ''$eq'' (5::int)] (Some (Combinator ''$and'' [Field ''email'' ''$eq'' 5]))) =
     (Inr (Combinator ''$and'' [Field ''email'' ''$eq'' 5]),
      Node AND [PropertyQuery 0 ''$eq'' 5] (Some (Combinator ''$and'' [Field ''email'' ''$eq'' 5])))"
proof -
  have h1: "partialqueries (init_node AND [PropertyQuery 0 ''$eq'' (5::int)] :: (int, int) node) \<noteq> []"
    by (simp add: init_node_def)
  have h2: "bson (\<lambda>p v. v) [(''email'', PropertyAttr 0)] (init_node AND [PropertyQuery 0 ''$eq'' (5::int)]) =
     (Inr (Combinator ''$and'' [Field ''email'' ''$eq'' 5]),
      Node AND [PropertyQuery 0 ''$eq'' 5] (Some (Combinator ''$and'' [Field ''email'' ''$eq'' 5])))"
    by (simp add: init_node_def)
  from cache_ignores_model [OF h1 h2, of "[(''mail'', PropertyAttr 0)]"] h1 h2
  show ?thesis by simp
qed

subsection \<open>Structure of a first compilation\<close>

lemma spec_fragments_map: "spec_fragments pack schema cs = map (spec_fragment pack schema) cs"
  by (induction cs) simp_all

text \<open>
  On a fresh, declared node the code computes the filter of the specification; for the
  loop, no exception ends it and the fragments are those of the children in order.
\<close>

lemma bson_fresh_declared:
  "(fresh n \<longrightarrow> declared (attr_map modelcls Map.empty) n \<longrightarrow>
      fst (bson pack modelcls n) = Inr (spec_compile pack (attr_map modelcls Map.empty) n))"
  "(am = attr_map modelcls Map.empty \<longrightarrow> fresh_children pqs \<longrightarrow> declared_children am pqs \<longrightarrow>
      fst (append_all pack modelcls am pqs) = None \<and>
      fst (snd (append_all pack modelcls am pqs)) = spec_fragments pack am pqs)"
proof (induction pack modelcls n and pack modelcls am pqs rule: bson_append_all.induct)
  case (1 pack modelcls k pqs cache)
  then show ?case by (auto split: prod.splits option.splits)
next
  case (2 pack modelcls am)
  then show ?case by simp
next
  case (3 pack modelcls am p operator v rest)
  then show ?case by (auto split: prod.splits option.splits)
next
  case (4 pack modelcls am n rest)
  then show ?case by (auto split: prod.splits option.splits sum.splits)
next
  case (5 pack modelcls am rest)
  then show ?case by simp
qed

text \<open>
  Claim C3. The first compilation of a node of either kind with N children (N at least 1),
  where no node of the tree has been compiled before and every child at every depth is a
  comparison unit on a property the model declares or a logic node, returns the node's
  combinator (\<^verbatim>\<open>$and\<close> for \<^verbatim>\<open>AND\<close>, \<^verbatim>\<open>$or\<close> for \<^verbatim>\<open>OR\<close>) over exactly N fragments in
  child order. The fragment of a comparison unit is
  \<^verbatim>\<open>{resolvedFieldName: {operator: packedValue}}\<close>; the fragment of a nested logic node is
  that node's own compilation against the same model, embedded as one element.
\<close>

theorem first_compile_structure:
  assumes "fresh n" and "declared (attr_map modelcls Map.empty) n" and "partialqueries n \<noteq> []"
  shows "fst (bson pack modelcls n) =
           Inr (Combinator (combinator (kind n))
                  (map (spec_fragment pack (attr_map modelcls Map.empty)) (partialqueries n))) \<and>
         length (map (spec_fragment pack (attr_map modelcls Map.empty)) (partialqueries n)) =
           length (partialqueries n)"
proof -
  obtain k pqs cache where n: "n = Node k pqs cache" by (cases n)
  from bson_fresh_declared(1) [of n modelcls pack] assms
  have "fst (bson pack modelcls n) = Inr (spec_compile pack (attr_map modelcls Map.empty) n)"
    by blast
  with n assms(3) show ?thesis by (simp add: spec_fragments_map)
qed

text \<open>
  The specification's example \<^verbatim>\<open>AND(cmp1, OR(cmp2, cmp3))\<close>, on a model that declares the
  three properties as \<^verbatim>\<open>email\<close>, \<^verbatim>\<open>age\<close> and \<^verbatim>\<open>score\<close> beside an attribute that is no
  property.
\<close>

theorem first_compile_structure_witness:
  "fresh (init_node AND [PropertyQuery 0 ''$eq'' (5::int),
      LogicOperator (init_node OR [PropertyQuery 1 ''$lt'' 7, PropertyQuery 2 ''$gt'' 9])]
      :: (int, int) node) \<and>
   declared (attr_map [(''email'', PropertyAttr 0), (''age'', PropertyAttr 1),
                        (''helper'', OtherAttr), (''score'', PropertyAttr 2)] Map.empty)
     (init_node AND [PropertyQuery 0 ''$eq'' (5::int),
      LogicOperator (init_node OR [PropertyQuery 1 ''$lt'' 7, PropertyQuery 2 ''$gt'' 9])]
      :: (int, int) node) \<and>
   partialqueries (init_node AND [PropertyQuery 0 ''$eq'' (5::int),
      LogicOperator (init_node OR [PropertyQuery 1 ''$lt'' 7, PropertyQuery 2 ''$gt'' 9])]
      :: (int, int) node) \<noteq> [] \<and>
   fst (bson (\<lambda>p v. v + 1)
          [(''email'', PropertyAttr 0), (''age'', PropertyAttr 1),
           (''helper'', OtherAttr), (''score'', PropertyAttr 2)]
          (init_node AND [PropertyQuery 0 ''$eq'' (5::int),
             LogicOperator (init_node OR [PropertyQuery 1 ''$lt'' 7, PropertyQuery 2 ''$gt'' 9])])) =
     Inr (Combinator ''$and''
            [Field ''email'' ''$eq'' (6::int),
             Combinator ''$or'' [Field ''age'' ''$lt'' 8, Field ''score'' ''$gt'' 10]])"
proof -
  let ?n = "init_node AND [PropertyQuery 0 ''$eq'' (5::int),
      LogicOperator (init_node OR [PropertyQuery 1 ''$lt'' 7, PropertyQuery 2 ''$gt'' 9])]
      :: (int, int) node"
  let ?M = "[(''email'', PropertyAttr 0), (''age'', PropertyAttr 1),
             (''helper'', OtherAttr), (''score'', PropertyAttr 2)]"
  have h1: "fresh ?n" by (simp add: init_node_def)
  have h2: "declared (attr_map ?M Map.empty) ?n" by (simp add: init_node_def)
  have h3: "partialqueries ?n \<noteq> []" by (simp add: init_node_def)
  from first_compile_structure [OF h1 h2 h3, of "\<lambda>p v. v + 1"] h1 h2 h3
  show ?thesis by (simp add: init_node_def)
qed

subsection \<open>A compilation that raises\<close>

text \<open>
  Claim C5. A compilation that fails on an undeclared property should leave the node's
  cache as it was, so that the next call behaves as if the failed one had not happened.
  The code assigns the cache before its loop: on \<^verbatim>\<open>AND(cmp1, cmp2)\<close> with the property of
  \<^verbatim>\<open>cmp1\<close> declared as \<^verbatim>\<open>email\<close> and the property of \<^verbatim>\<open>cmp2\<close> undeclared, the first call
  raises \<^verbatim>\<open>KeyError\<close> and leaves the one-fragment filter in the cache, and the second call
  on the node so left raises nothing and returns that partly built filter.
\<close>

theorem failed_compile_leaves_partial_cache:
  "bson (\<lambda>p v. v) [(''email'', PropertyAttr 0)]
      (init_node AND [PropertyQuery 0 ''$eq'' (5::int), PropertyQuery 1 ''$lt'' 7]) =
     (Inl KeyError,
      Node AND [PropertyQuery 0 ''$eq'' 5, PropertyQuery 1 ''$lt'' 7]
        (Some (Combinator ''$and'' [Field ''email'' ''$eq'' 5]))) \<and>
   bson (\<lambda>p v. v) [(''email'', PropertyAttr 0)]
      (Node AND [PropertyQuery 0 ''$eq'' (5::int), PropertyQuery 1 ''$lt'' 7]
        (Some (Combinator ''$and'' [Field ''email'' ''$eq'' 5]))) =
     (Inr (Combinator ''$and'' [Field ''email'' ''$eq'' 5]),
      Node AND [PropertyQuery 0 ''$eq'' 5, PropertyQuery 1 ''$lt'' 7]
        (Some (Combinator ''$and'' [Field ''email'' ''$eq'' 5])))"
  by (simp add: init_node_def)

subsection \<open>Nodes without children\<close>

text \<open>
  Claim C6. Against every model, \<^verbatim>\<open>AND()\<close> and \<^verbatim>\<open>OR()\<close> with no children compile to the
  empty document, the match-all filter, and not to a document with an empty \<^verbatim>\<open>$and\<close> or
  \<^verbatim>\<open>$or\<close> array; the node is left as it was, whatever its cache field holds.
\<close>

theorem empty_node_compiles_to_match_all:
  "bson pack modelcls (Node AND [] cache) = (Inr Empty, Node AND [] cache) \<and>
   bson pack modelcls (Node OR [] cache) = (Inr Empty, Node OR [] cache) \<and>
   fst (bson pack modelcls (init_node AND [])) = Inr Empty \<and>
   fst (bson pack modelcls (init_node OR [])) = Inr Empty \<and>
   (Empty :: 'w bsondoc) \<noteq> Combinator (combinator AND) [] \<and>
   (Empty :: 'w bsondoc) \<noteq> Combinator (combinator OR) []"
  by (simp add: init_node_def)

subsection \<open>Children of another class\<close>

lemma append_all_skips_Other:
  "fst (append_all pack modelcls am pqs) =
     fst (append_all pack modelcls am (filter (\<lambda>c. c \<noteq> Other) pqs)) \<and>
   fst (snd (append_all pack modelcls am pqs)) =
     fst (snd (append_all pack modelcls am (filter (\<lambda>c. c \<noteq> Other) pqs)))"
proof (induction pqs)
  case Nil
  then show ?case by simp
next
  case (Cons c pqs)
  then show ?case
    by (cases c) (auto split: prod.splits option.splits sum.splits)
qed

text \<open>
  Claim C10. A child that is neither a comparison unit nor a logic node is passed over in
  silence. When other children remain, compiling the node returns what compiling it
  without those children returns, be it a filter or the exception of another child: the
  passed-over child adds no fragment and no error. When no other child remains and the
  node has no cache yet, the compilation succeeds with the combinator over an empty
  array.
\<close>

theorem other_children_skipped:
  "(filter (\<lambda>c. c \<noteq> Other) pqs \<noteq> [] \<longrightarrow>
      fst (bson pack modelcls (Node k pqs cache)) =
      fst (bson pack modelcls (Node k (filter (\<lambda>c. c \<noteq> Other) pqs) cache))) \<and>
   (pqs \<noteq> [] \<and> filter (\<lambda>c. c \<noteq> Other) pqs = [] \<and> \<not> truthy cache \<longrightarrow>
      fst (bson pack modelcls (Node k pqs cache)) = Inr (Combinator (combinator k) []))"
  using append_all_skips_Other [of pack modelcls "attr_map modelcls Map.empty" pqs]
  by (auto split: prod.splits option.splits)

text \<open>
  \<^verbatim>\<open>AND(x, cmp, x)\<close> with \<^verbatim>\<open>x\<close> of another class compiles to the filter of \<^verbatim>\<open>AND(cmp)\<close>,
  and \<^verbatim>\<open>OR(x)\<close> to \<^verbatim>\<open>{'$or': []}\<close>.
\<close>

theorem other_children_skipped_witness:
  "filter (\<lambda>c. c \<noteq> Other) [Other, PropertyQuery 0 ''$eq'' (5::int), Other :: (int, int) child] \<noteq> [] \<and>
   fst (bson (\<lambda>p v. v) [(''email'', PropertyAttr 0)]
          (Node AND [Other, PropertyQuery 0 ''$eq'' (5::int), Other] None)) =
     Inr (Combinator ''$and'' [Field ''email'' ''$eq'' 5]) \<and>
   [Other :: (int, int) child] \<noteq> [] \<and>
   filter (\<lambda>c. c \<noteq> Other) [Other :: (int, int) child] = [] \<and>
   \<not> truthy (None :: int bsondoc option) \<and>
   fst (bson (\<lambda>p v. v) [(''email'', PropertyAttr 0)] (Node OR [Other :: (int, int) child] None)) =
     Inr (Combinator ''$or'' [])"
  using other_children_skipped [of "[Other, PropertyQuery 0 ''$eq'' (5::int), Other]"
          "\<lambda>p v. v" "[(''email'', PropertyAttr 0)]" AND None]
        other_children_skipped [of "[Other :: (int, int) child]"
          "\<lambda>p v. v" "[(''email'', PropertyAttr 0)]" OR None]
  by simp

section \<open>Properties of the deferred query\<close>

subsection \<open>filter\<close>

text \<open>
  Claim C2. \<^verbatim>\<open>filter\<close> should return a new query whose root is
  \<^verbatim>\<open>AND(existing root, *args)\<close>. The method reads \<^verbatim>\<open>self.logic_chain\<close>, while the field
  \<^verbatim>\<open>__init__\<close> assigns is \<^verbatim>\<open>_logic_chain\<close>: on every query and every argument list the
  call raises \<^verbatim>\<open>AttributeError\<close> and returns no query.
\<close>

theorem filter_raises_AttributeError:
  "filter_query coll_find pack self args = Inl AttributeError"
  by (simp add: filter_query_def getattr_def)

subsection \<open>iter\<close>

text \<open>
  Claim C4. Iteration with \<^verbatim>\<open>keys_only\<close> set should yield one key for each matched
  document and resolve no entity. On a query that matches one document the generator
  yields two values: the key, and then the entity \<^verbatim>\<open>key.get()\<close> resolves.
\<close>

theorem iter_keys_only_yields_entity_too:
  "iter str_id Key_get \<lparr>q_model = model, q_logic_chain = chain, q_query = [document]\<rparr> True =
     [KeyResult \<lparr>key_model = model, key_id = str_id document\<rparr>,
      Entity (Key_get \<lparr>key_model = model, key_id = str_id document\<rparr>)]"
  by (simp add: iter_def Let_def)

subsection \<open>fetch\<close>

lemma window_as_positions:
  "take k (drop a xs) = map (\<lambda>i. xs ! i) [a ..< min (a + k) (length xs)]"
proof -
  have "take k (drop a xs) = take k (drop a (map (\<lambda>i. xs ! i) [0 ..< length xs]))"
    by (simp add: map_nth)
  also have "\<dots> = map (\<lambda>i. xs ! i) (take k (drop a [0 ..< length xs]))"
    by (simp add: take_map drop_map)
  also have "take k (drop a [0 ..< length xs]) = [a ..< min (a + k) (length xs)]"
  proof (cases "a + k \<le> length xs")
    case True
    then show ?thesis by (simp add: min_def)
  next
    case False
    then show ?thesis by (simp add: min_def)
  qed
  finally show ?thesis .
qed

text \<open>
  Claim C7. For a query whose cursor holds the M matched documents in match order and for
  non-negative \<open>offset\<close> and \<open>n\<close>, \<^verbatim>\<open>fetch(offset, n, keys_only)\<close> raises nothing and
  returns, in order, the documents at the positions \<open>offset \<le> i < min (offset + n) M\<close>:
  each as its key when \<^verbatim>\<open>keys_only\<close> is set and as the entity its key resolves to
  otherwise. A window that reaches past M gives a shorter list, one that starts at or past
  M the empty list.
\<close>

theorem fetch_window:
  assumes "0 \<le> offset" and "0 \<le> n"
  shows "fetch str_id Key_get self offset n keys_only =
     Inr (map (\<lambda>i. if keys_only
                    then KeyResult \<lparr>key_model = q_model self, key_id = str_id (q_query self ! i)\<rparr>
                    else Entity (Key_get \<lparr>key_model = q_model self, key_id = str_id (q_query self ! i)\<rparr>))
              [nat offset ..< min (nat offset + nat n) (length (q_query self))])"
proof -
  have "cursor_slice (q_query self) offset (offset + n) =
        Inr (take (nat n) (drop (nat offset) (q_query self)))"
    using assms by (simp add: cursor_slice_def)
  then show ?thesis
    by (simp add: fetch_def window_as_positions comp_def)
qed

text \<open>
  The specification's example: on a query that matches ten documents,
  \<^verbatim>\<open>fetch(offset=8, count=5)\<close> returns the two documents at positions 8 and 9.
\<close>

theorem fetch_window_witness:
  "(0::int) \<le> 8 \<and> (0::int) \<le> 5 \<and>
   fetch (\<lambda>d. d) key_id
     \<lparr>q_model = [], q_logic_chain = (init_node AND [] :: (int, int) node),
      q_query = [''d0'', ''d1'', ''d2'', ''d3'', ''d4'', ''d5'', ''d6'', ''d7'', ''d8'', ''d9'']\<rparr>
     8 5 True =
   Inr [KeyResult \<lparr>key_model = [], key_id = ''d8''\<rparr>, KeyResult \<lparr>key_model = [], key_id = ''d9''\<rparr>]"
proof -
  have h1: "(0::int) \<le> 8" by simp
  have h2: "(0::int) \<le> 5" by simp
  have u: "[8 ..< 10] = [8, 9::nat]" by (simp add: upt_rec)
  from fetch_window [OF h1 h2, of "\<lambda>d. d" key_id
      "\<lparr>q_model = [], q_logic_chain = (init_node AND [] :: (int, int) node),
        q_query = [''d0'', ''d1'', ''d2'', ''d3'', ''d4'', ''d5'', ''d6'', ''d7'', ''d8'', ''d9'']\<rparr>" True]
  show ?thesis by (simp add: u)
qed

text \<open>
  Claim C9. \<^verbatim>\<open>fetch()\<close> called with no offset and no count takes both as 0 and returns
  the empty list, however many documents the query matches and whatever \<^verbatim>\<open>keys_only\<close>
  is.
\<close>

theorem fetch_defaults_empty:
  "fetch_call str_id Key_get self None None keys_only = Inr []"
  by (simp add: fetch_call_def fetch_def cursor_slice_def)

subsection \<open>get\<close>

text \<open>
  Claim C8. \<^verbatim>\<open>get(keys_only)\<close> raises nothing. On a query that matches no document it
  returns \<^verbatim>\<open>None\<close>; on a query that matches at least one it returns the first match and
  nothing of the others: the key of the first document when \<^verbatim>\<open>keys_only\<close> is set, the
  entity that key resolves to otherwise.
\<close>

theorem get_first_or_None:
  "get str_id Key_get self keys_only =
     (case q_query self of
        [] \<Rightarrow> Inr None
      | document # rest \<Rightarrow>
          Inr (Some (if keys_only
                     then KeyResult \<lparr>key_model = q_model self, key_id = str_id document\<rparr>
                     else Entity (Key_get \<lparr>key_model = q_model self, key_id = str_id document\<rparr>))))"
  by (cases "q_query self") (simp_all add: get_def count_def cursor_count_def cursor_item_def)

end
